theory Spec2Isabelle
  imports Complex_Main
begin

section \<open>Python values, dictionaries and exceptions\<close>

text \<open>
  The valuation engine (\<^verbatim>\<open>backend/services/valuation_engine.py\<close>) and the valuation
  router (\<^verbatim>\<open>backend/routers/valuation.py\<close>) work on \<^verbatim>\<open>Dict[str, Any]\<close> records.
  A value of such a dictionary is \<^verbatim>\<open>None\<close>, a bool, an int, a float, a str or a list.
  Floats are modelled as reals: rounding, overflow, infinities and NaN are outside the
  model. Every comparison the claims below depend on is between quantities that are far
  from a rounding boundary at the concrete inputs used.
\<close>

datatype pyval =
    PyNone
  | PyBool bool
  | PyInt int
  | PyFloat real
  | PyStr string
  | PyList "pyval list"

text \<open>
  The exceptions the modelled code can raise. \<^verbatim>\<open>ValueError\<close> is the only one raised
  explicitly (\<^verbatim>\<open>raise ValueError("... required for ... valuation")\<close>); the others come
  from the interpreter: arithmetic or comparison on \<^verbatim>\<open>None\<close> or a str
  (\<^verbatim>\<open>TypeError\<close>), a zero divisor (\<^verbatim>\<open>ZeroDivisionError\<close>), and \<^verbatim>\<open>xs[-1]\<close> on an
  empty list (\<^verbatim>\<open>IndexError\<close>). All are subclasses of \<^verbatim>\<open>Exception\<close>.
\<close>

datatype error = ValueError | TypeError | ZeroDivisionError | IndexError

type_synonym pydict = "string \<rightharpoonup> pyval"

text \<open>Sequencing of a computation that may raise: the first exception wins.\<close>

definition bindE :: "error + 'a \<Rightarrow> ('a \<Rightarrow> error + 'b) \<Rightarrow> error + 'b" where
  "bindE m f = (case m of Inl e \<Rightarrow> Inl e | Inr x \<Rightarrow> f x)"

text \<open>\<^verbatim>\<open>d.get(k, default)\<close>: the default is used only when the key is absent; a key that is
  present with the value \<^verbatim>\<open>None\<close> yields \<^verbatim>\<open>None\<close>.\<close>

definition dict_get :: "pydict \<Rightarrow> string \<Rightarrow> pyval \<Rightarrow> pyval" where
  "dict_get d k dflt = (case d k of None \<Rightarrow> dflt | Some v \<Rightarrow> v)"

text \<open>\<^verbatim>\<open>assumptions.get(k, default) if assumptions else default\<close>: the override
  dictionary may be \<^verbatim>\<open>None\<close>. An empty dictionary is falsy as well, and the lookup in
  it gives the default all the same.\<close>

definition assumption_get :: "pydict option \<Rightarrow> string \<Rightarrow> pyval \<Rightarrow> pyval" where
  "assumption_get a k dflt = (case a of None \<Rightarrow> dflt | Some d \<Rightarrow> dict_get d k dflt)"

text \<open>Truthiness, as tested by \<^verbatim>\<open>not x\<close>.\<close>

fun truthy :: "pyval \<Rightarrow> bool" where
  "truthy PyNone = False"
| "truthy (PyBool b) = b"
| "truthy (PyInt i) = (i \<noteq> 0)"
| "truthy (PyFloat x) = (x \<noteq> 0)"
| "truthy (PyStr s) = (s \<noteq> [])"
| "truthy (PyList xs) = (xs \<noteq> [])"

text \<open>
  A value used as an operand of \<^verbatim>\<open>+ - * / **\<close> or of \<^verbatim>\<open>< >\<close> against a number.
  \<^verbatim>\<open>None\<close> raises \<^verbatim>\<open>TypeError\<close>. A str or list operand is modelled as raising
  \<^verbatim>\<open>TypeError\<close> too (Python's repetition \<^verbatim>\<open>'ab' * 2\<close> is not modelled; the data
  retriever puts numbers or \<^verbatim>\<open>None\<close> into the numeric fields).
\<close>

fun as_number :: "pyval \<Rightarrow> error + real" where
  "as_number (PyBool b) = Inr (if b then 1 else 0)"
| "as_number (PyInt i) = Inr (real_of_int i)"
| "as_number (PyFloat x) = Inr x"
| "as_number PyNone = Inl TypeError"
| "as_number (PyStr s) = Inl TypeError"
| "as_number (PyList xs) = Inl TypeError"

text \<open>The bound of \<^verbatim>\<open>range(1, years + 1)\<close>: \<^verbatim>\<open>range\<close> accepts an int (or bool) only.\<close>

fun as_int :: "pyval \<Rightarrow> error + int" where
  "as_int (PyBool b) = Inr (if b then 1 else 0)"
| "as_int (PyInt i) = Inr i"
| "as_int (PyFloat x) = Inl TypeError"
| "as_int PyNone = Inl TypeError"
| "as_int (PyStr s) = Inl TypeError"
| "as_int (PyList xs) = Inl TypeError"

definition py_div :: "real \<Rightarrow> real \<Rightarrow> error + real" where
  "py_div a b = (if b = 0 then Inl ZeroDivisionError else Inr (a / b))"

text \<open>\<^verbatim>\<open>base ** n\<close> for an int exponent.\<close>

definition py_pow :: "real \<Rightarrow> int \<Rightarrow> error + real" where
  "py_pow b n =
     (if 0 \<le> n then Inr (b ^ nat n)
      else if b = 0 then Inl ZeroDivisionError
      else Inr (1 / b ^ nat (- n)))"

section \<open>Schemas\<close>

datatype ValuationMethod = DCF | PEG | PE | COMPARATIVE

text \<open>\<^verbatim>\<open>ValuationResult\<close>; the field \<^verbatim>\<open>method\<close> of the schema is \<open>method_tag\<close> here.\<close>

record ValuationResult =
  method_tag :: ValuationMethod
  estimated_value :: real
  confidence_interval :: "real \<times> real"
  assumptions :: "(string \<times> pyval) list"
  calculation_details :: "(string \<times> pyval) list"

section \<open>Numeric projection primitives\<close>

text \<open>\<^verbatim>\<open>_project_cash_flows\<close>: the loop over \<^verbatim>\<open>range(1, years + 1)\<close>.\<close>

fun project_loop :: "pyval \<Rightarrow> pyval \<Rightarrow> int list \<Rightarrow> error + real list" where
  "project_loop initial_fcf growth_rate [] = Inr []"
| "project_loop initial_fcf growth_rate (year # ys) =
     bindE (as_number growth_rate) (\<lambda>g.
     bindE (py_pow (1 + g) year) (\<lambda>p.
     bindE (as_number initial_fcf) (\<lambda>f.
     bindE (project_loop initial_fcf growth_rate ys) (\<lambda>rest.
       Inr (f * p # rest)))))"

definition project_cash_flows :: "pyval \<Rightarrow> pyval \<Rightarrow> pyval \<Rightarrow> error + real list" where
  "project_cash_flows initial_fcf growth_rate years =
     bindE (as_int years) (\<lambda>n. project_loop initial_fcf growth_rate [1..n])"

text \<open>\<^verbatim>\<open>_calculate_terminal_value\<close>:
  \<^verbatim>\<open>final_fcf * (1 + terminal_growth) / (discount_rate - terminal_growth)\<close>.\<close>

definition calculate_terminal_value :: "real \<Rightarrow> pyval \<Rightarrow> pyval \<Rightarrow> error + real" where
  "calculate_terminal_value final_fcf terminal_growth discount_rate =
     bindE (as_number terminal_growth) (\<lambda>g.
     bindE (as_number discount_rate) (\<lambda>r.
       py_div (final_fcf * (1 + g)) (r - g)))"

text \<open>\<^verbatim>\<open>_discount_cash_flows\<close>:
  \<^verbatim>\<open>[cf / ((1 + discount_rate) ** (i + 1)) for i, cf in enumerate(cash_flows)]\<close>.\<close>

fun discount_loop :: "pyval \<Rightarrow> int \<Rightarrow> real list \<Rightarrow> error + real list" where
  "discount_loop discount_rate i [] = Inr []"
| "discount_loop discount_rate i (cf # cfs) =
     bindE (as_number discount_rate) (\<lambda>r.
     bindE (py_pow (1 + r) (i + 1)) (\<lambda>p.
     bindE (py_div cf p) (\<lambda>d.
     bindE (discount_loop discount_rate (i + 1) cfs) (\<lambda>rest.
       Inr (d # rest)))))"

definition discount_cash_flows :: "real list \<Rightarrow> pyval \<Rightarrow> error + real list" where
  "discount_cash_flows cash_flows discount_rate = discount_loop discount_rate 0 cash_flows"

text \<open>\<^verbatim>\<open>projected_cash_flows[-1]\<close>.\<close>

definition last_item :: "'a list \<Rightarrow> error + 'a" where
  "last_item xs = (if xs = [] then Inl IndexError else Inr (last xs))"

section \<open>Confidence intervals\<close>

text \<open>\<^verbatim>\<open>_calculate_dcf_confidence_interval\<close>: the two rate arguments are unused.\<close>

definition calculate_dcf_confidence_interval :: "real \<Rightarrow> pyval \<Rightarrow> pyval \<Rightarrow> real \<times> real" where
  "calculate_dcf_confidence_interval estimated growth_rate discount_rate =
     (let lower_bound = estimated * 0.8;
          upper_bound = estimated * 1.2
      in (lower_bound, upper_bound))"

definition calculate_peg_confidence_interval :: "real \<Rightarrow> real \<Rightarrow> real \<times> real" where
  "calculate_peg_confidence_interval estimated peg_ratio =
     (let peg_deviation = \<bar>peg_ratio - 1.0\<bar>;
          confidence_range =
            (if peg_deviation < 0.2 then 0.1
             else if peg_deviation < 0.5 then 0.2
             else 0.3)
      in (estimated * (1 - confidence_range), estimated * (1 + confidence_range)))"

definition calculate_pe_confidence_interval :: "real \<Rightarrow> real \<Rightarrow> real \<Rightarrow> error + real \<times> real" where
  "calculate_pe_confidence_interval estimated current_pe industry_pe =
     bindE (py_div \<bar>current_pe - industry_pe\<bar> industry_pe) (\<lambda>pe_deviation.
       let confidence_range =
            (if pe_deviation < 0.1 then 0.1
             else if pe_deviation < 0.3 then 0.2
             else (0.3 :: real))
       in Inr (estimated * (1 - confidence_range), estimated * (1 + confidence_range)))"

text \<open>\<^verbatim>\<open>_get_industry_pe_ratio\<close>: \<^verbatim>\<open>industry_pe_ratios.get(sector, 18.0)\<close>. A key that is
  not one of the eleven sector names (also \<^verbatim>\<open>None\<close> or a number) gives the default; a
  list is unhashable.\<close>

definition industry_pe_ratios :: "(string \<times> real) list" where
  "industry_pe_ratios =
     [(''Technology'', 25.0),
      (''Healthcare'', 20.0),
      (''Finance'', 15.0),
      (''Energy'', 12.0),
      (''Consumer Cyclical'', 18.0),
      (''Consumer Defensive'', 16.0),
      (''Industrials'', 17.0),
      (''Basic Materials'', 14.0),
      (''Real Estate'', 22.0),
      (''Communication Services'', 23.0),
      (''Utilities'', 19.0)]"

fun get_industry_pe_ratio :: "pyval \<Rightarrow> error + real" where
  "get_industry_pe_ratio (PyStr sector) =
     Inr (case map_of industry_pe_ratios sector of None \<Rightarrow> 18.0 | Some pe \<Rightarrow> pe)"
| "get_industry_pe_ratio (PyList xs) = Inl TypeError"
| "get_industry_pe_ratio v = Inr 18.0"

section \<open>The four valuators\<close>

definition dcf_valuation :: "pydict \<Rightarrow> pydict \<Rightarrow> pydict option \<Rightarrow> error + ValuationResult" where
  "dcf_valuation stock_data market_context assumptions_in =
     (let free_cash_flow = dict_get stock_data ''free_cash_flow'' (PyInt 0);
          current_price = dict_get stock_data ''current_price'' (PyInt 0);
          growth_rate = assumption_get assumptions_in ''growth_rate'' (PyFloat 0.05);
          discount_rate = assumption_get assumptions_in ''discount_rate'' (PyFloat 0.10);
          terminal_growth = assumption_get assumptions_in ''terminal_growth'' (PyFloat 0.02);
          projection_years = assumption_get assumptions_in ''projection_years'' (PyInt 5)
      in
     bindE (project_cash_flows free_cash_flow growth_rate projection_years) (\<lambda>projected_cash_flows.
     bindE (last_item projected_cash_flows) (\<lambda>final_fcf.
     bindE (calculate_terminal_value final_fcf terminal_growth discount_rate) (\<lambda>terminal_value.
     bindE (discount_cash_flows projected_cash_flows discount_rate) (\<lambda>present_value_cash_flows.
     bindE (as_number discount_rate) (\<lambda>r.
     bindE (as_int projection_years) (\<lambda>n.
     bindE (py_pow (1 + r) n) (\<lambda>p.
     bindE (py_div terminal_value p) (\<lambda>present_value_terminal.
       let enterprise_value = sum_list present_value_cash_flows + present_value_terminal;
           debt = dict_get stock_data ''total_debt'' (PyInt 0);
           cash = dict_get stock_data ''total_cash'' (PyInt 0)
       in
     bindE (as_number debt) (\<lambda>d.
     bindE (as_number cash) (\<lambda>c.
       let equity_value = enterprise_value - d + c;
           shares_outstanding = dict_get stock_data ''shares_outstanding'' (PyInt 1)
       in
     bindE (as_number shares_outstanding) (\<lambda>s.
       let estimated = (if s > 0 then equity_value / s else equity_value);
           interval = calculate_dcf_confidence_interval estimated growth_rate discount_rate
       in Inr \<lparr> method_tag = DCF,
                 estimated_value = estimated,
                 confidence_interval = interval,
                 assumptions =
                   [(''growth_rate'', growth_rate),
                    (''discount_rate'', discount_rate),
                    (''terminal_growth'', terminal_growth),
                    (''projection_years'', projection_years)],
                 calculation_details =
                   [(''free_cash_flow'', free_cash_flow),
                    (''enterprise_value'', PyFloat enterprise_value),
                    (''equity_value'', PyFloat equity_value),
                    (''projected_cash_flows'', PyList (map PyFloat projected_cash_flows)),
                    (''terminal_value'', PyFloat terminal_value)] \<rparr>))))))))))))"

text \<open>In \<^verbatim>\<open>peg_valuation\<close> the default of \<^verbatim>\<open>stock_data.get('eps', current_price / pe_ratio)\<close>
  is an argument, so the division is evaluated whether or not the key is present.\<close>

definition peg_valuation :: "pydict \<Rightarrow> pydict \<Rightarrow> pydict option \<Rightarrow> error + ValuationResult" where
  "peg_valuation stock_data market_context assumptions_in =
     (let pe_ratio = dict_get stock_data ''pe_ratio'' PyNone;
          earnings_growth = dict_get stock_data ''earnings_growth'' PyNone;
          current_price = dict_get stock_data ''current_price'' (PyInt 0)
      in
      if \<not> truthy pe_ratio \<or> \<not> truthy earnings_growth then Inl ValueError
      else
     bindE (as_number earnings_growth) (\<lambda>eg.
     bindE (as_number pe_ratio) (\<lambda>pe.
     bindE (py_div pe (eg * 100)) (\<lambda>peg_ratio.
       let fair_pe_ratio = eg * 100 in
     bindE (as_number current_price) (\<lambda>price.
     bindE (py_div price pe) (\<lambda>derived_eps.
     bindE (as_number (dict_get stock_data ''eps'' (PyFloat derived_eps))) (\<lambda>eps.
       let estimated = fair_pe_ratio * eps;
           interval = calculate_peg_confidence_interval estimated peg_ratio
       in Inr \<lparr> method_tag = PEG,
                 estimated_value = estimated,
                 confidence_interval = interval,
                 assumptions =
                   [(''fair_peg_ratio'', PyFloat 1.0),
                    (''growth_rate'', earnings_growth)],
                 calculation_details =
                   [(''peg_ratio'', PyFloat peg_ratio),
                    (''pe_ratio'', pe_ratio),
                    (''earnings_growth'', earnings_growth),
                    (''fair_pe_ratio'', PyFloat fair_pe_ratio)] \<rparr>)))))))"

text \<open>In \<^verbatim>\<open>pe_valuation\<close> the default \<^verbatim>\<open>current_price / current_pe if current_pe else 0\<close>
  is likewise evaluated before the lookup of \<^verbatim>\<open>eps\<close> and before the check of the
  required fields.\<close>

definition pe_valuation :: "pydict \<Rightarrow> pydict \<Rightarrow> pydict option \<Rightarrow> error + ValuationResult" where
  "pe_valuation stock_data market_context assumptions_in =
     (let current_pe = dict_get stock_data ''pe_ratio'' PyNone;
          current_price = dict_get stock_data ''current_price'' (PyInt 0)
      in
     bindE (if truthy current_pe
            then bindE (as_number current_price) (\<lambda>price.
                 bindE (as_number current_pe) (\<lambda>pe.
                 bindE (py_div price pe) (\<lambda>q. Inr (PyFloat q))))
            else Inr (PyInt 0)) (\<lambda>derived_eps.
       let eps = dict_get stock_data ''eps'' derived_eps in
       if \<not> truthy current_pe \<or> \<not> truthy eps then Inl ValueError
       else
     bindE (get_industry_pe_ratio (dict_get stock_data ''sector'' (PyStr []))) (\<lambda>industry_pe.
     bindE (as_number eps) (\<lambda>e.
       let estimated = industry_pe * e in
     bindE (as_number current_pe) (\<lambda>pe.
     bindE (calculate_pe_confidence_interval estimated pe industry_pe) (\<lambda>interval.
       Inr \<lparr> method_tag = PE,
              estimated_value = estimated,
              confidence_interval = interval,
              assumptions =
                [(''industry_pe_ratio'', PyFloat industry_pe),
                 (''valuation_method'', PyStr ''industry_comparison'')],
              calculation_details =
                [(''current_pe'', current_pe),
                 (''industry_pe'', PyFloat industry_pe),
                 (''eps'', eps),
                 (''pe_difference'', PyFloat (pe - industry_pe))] \<rparr>))))))"

definition comparative_valuation :: "pydict \<Rightarrow> pydict \<Rightarrow> pydict option \<Rightarrow> error + ValuationResult" where
  "comparative_valuation stock_data market_context assumptions_in =
     (let current_price = dict_get stock_data ''current_price'' (PyInt 0) in
     bindE (as_number current_price) (\<lambda>price.
       let estimated = price * 1.1 in
       Inr \<lparr> method_tag = COMPARATIVE,
              estimated_value = estimated,
              confidence_interval = (estimated * 0.8, estimated * 1.2),
              assumptions =
                [(''peer_comparison'', PyBool True),
                 (''sector_average'', PyBool True)],
              calculation_details =
                [(''method'', PyStr ''placeholder''),
                 (''note'', PyStr ''Comparative valuation not yet implemented'')] \<rparr>))"

section \<open>The valuation router\<close>

text \<open>\<^verbatim>\<open>perform_single_valuation\<close>. The request schema admits the four members of the
  enumeration only, so the final \<^verbatim>\<open>else: raise ValueError\<close> has no input.\<close>

fun perform_single_valuation ::
  "ValuationMethod \<Rightarrow> pydict \<Rightarrow> pydict \<Rightarrow> pydict option \<Rightarrow> error + ValuationResult" where
  "perform_single_valuation DCF stock_data market_context a =
     dcf_valuation stock_data market_context a"
| "perform_single_valuation PEG stock_data market_context a =
     peg_valuation stock_data market_context a"
| "perform_single_valuation PE stock_data market_context a =
     pe_valuation stock_data market_context a"
| "perform_single_valuation COMPARATIVE stock_data market_context a =
     comparative_valuation stock_data market_context a"

text \<open>The loop of \<^verbatim>\<open>perform_valuation\<close> over \<^verbatim>\<open>request.valuation_methods\<close>: the body is
  a \<^verbatim>\<open>try\<close> whose \<^verbatim>\<open>except Exception\<close> logs a warning and goes on; a result is
  appended to \<^verbatim>\<open>valuations\<close>.\<close>

fun valuation_loop ::
  "ValuationMethod list \<Rightarrow> pydict \<Rightarrow> pydict \<Rightarrow> pydict option \<Rightarrow>
   ValuationResult list \<Rightarrow> ValuationResult list" where
  "valuation_loop [] stock_data market_context a valuations = valuations"
| "valuation_loop (m # ms) stock_data market_context a valuations =
     (case perform_single_valuation m stock_data market_context a of
        Inr valuation_result \<Rightarrow>
          valuation_loop ms stock_data market_context a (valuations @ [valuation_result])
      | Inl e \<Rightarrow> valuation_loop ms stock_data market_context a valuations)"

definition perform_valuations ::
  "ValuationMethod list \<Rightarrow> pydict \<Rightarrow> pydict \<Rightarrow> pydict option \<Rightarrow> ValuationResult list" where
  "perform_valuations methods stock_data market_context a =
     valuation_loop methods stock_data market_context a []"

text \<open>\<^verbatim>\<open>FinancialMetrics\<close> of \<^verbatim>\<open>models/schemas.py\<close>: the price and the market
  capitalisation are floats, the other fields are optional.\<close>

record FinancialMetrics =
  current_price :: real
  market_cap :: real
  pe_ratio :: "real option"
  peg_ratio :: "real option"
  price_to_book :: "real option"
  debt_to_equity :: "real option"
  revenue_growth :: "real option"
  earnings_growth :: "real option"
  free_cash_flow :: "real option"

definition generate_recommendation :: "ValuationResult list \<Rightarrow> FinancialMetrics \<Rightarrow> error + string" where
  "generate_recommendation valuations metrics =
     (if valuations = [] then Inr ''Insufficient data for recommendation''
      else
     bindE (py_div (sum_list (map estimated_value valuations)) (real (length valuations))) (\<lambda>avg_value.
       let price = current_price metrics in
       if avg_value > price * 1.2 then
         Inr ''Strong Buy - Multiple valuation methods suggest significant upside''
       else if avg_value > price * 1.05 then
         Inr ''Buy - Valuation suggests moderate upside potential''
       else if avg_value < price * 0.8 then
         Inr ''Sell - Valuation suggests significant downside risk''
       else if avg_value < price * 0.95 then
         Inr ''Hold - Valuation suggests slight downside risk''
       else
         Inr ''Hold - Valuation is approximately fair value''))"

text \<open>\<^verbatim>\<open>identify_risk_factors\<close>: three checks in sequence, each appending to
  \<^verbatim>\<open>risk_factors\<close>; a comparison \<^verbatim>\<open>None > 1.0\<close> raises.\<close>

definition identify_risk_factors :: "pydict \<Rightarrow> pydict \<Rightarrow> error + string list" where
  "identify_risk_factors stock_data market_context =
     bindE (as_number (dict_get stock_data ''debt_to_equity'' (PyInt 0))) (\<lambda>de.
       let risk_factors1 = (if de > 1.0 then [''High debt-to-equity ratio''] else []) in
     bindE (as_number (dict_get stock_data ''pe_ratio'' (PyInt 0))) (\<lambda>pe.
       let risk_factors2 =
             (if pe > 30 then risk_factors1 @ [''High P/E ratio may indicate overvaluation'']
              else risk_factors1) in
     bindE (as_number (dict_get market_context ''market_volatility'' (PyInt 0))) (\<lambda>vol.
       let risk_factors3 =
             (if vol > 0.3 then risk_factors2 @ [''High market volatility'']
              else risk_factors2) in
       Inr (if risk_factors3 \<noteq> [] then risk_factors3
            else [''No significant risk factors identified'']))))"

section \<open>Reading results\<close>

text \<open>The method tag, the estimate and the confidence interval of a valuator's result,
  or the exception it raised.\<close>

definition outcome :: "error + ValuationResult \<Rightarrow> error + ValuationMethod \<times> real \<times> (real \<times> real)" where
  "outcome res =
     (case res of
        Inl e \<Rightarrow> Inl e
      | Inr r \<Rightarrow> Inr (method_tag r, estimated_value r, confidence_interval r))"

text \<open>A number, as opposed to \<^verbatim>\<open>None\<close>, a str or a list.\<close>

fun is_number :: "pyval \<Rightarrow> bool" where
  "is_number (PyBool b) = True"
| "is_number (PyInt i) = True"
| "is_number (PyFloat x) = True"
| "is_number PyNone = False"
| "is_number (PyStr s) = False"
| "is_number (PyList xs) = False"

text \<open>The value \<^verbatim>\<open>as_number\<close> gives for a number.\<close>

fun number_of :: "pyval \<Rightarrow> real" where
  "number_of (PyBool b) = (if b then 1 else 0)"
| "number_of (PyInt i) = real_of_int i"
| "number_of (PyFloat x) = x"
| "number_of PyNone = 0"
| "number_of (PyStr s) = 0"
| "number_of (PyList xs) = 0"

text \<open>A field of the schema type \<^verbatim>\<open>Optional[float]\<close>: \<^verbatim>\<open>None\<close> or a number.\<close>

definition missing_or_number :: "pyval \<Rightarrow> bool" where
  "missing_or_number v = (v = PyNone \<or> is_number v)"

text \<open>A number of moderate size: a bool, or an int or a float of magnitude at most
  \<open>10 ^ 300\<close>. On such operands the float arithmetic of Python raises no
  \<^verbatim>\<open>OverflowError\<close> (an int of 400 digits does: \<^verbatim>\<open>10**400 * 1.1\<close> and
  \<^verbatim>\<open>10**400 / 20\<close> raise it) and a product with 1.1, 0.8 or 1.2 stays finite.\<close>

fun moderate :: "pyval \<Rightarrow> bool" where
  "moderate (PyBool b) = True"
| "moderate (PyInt i) = (\<bar>i\<bar> \<le> 10 ^ 300)"
| "moderate (PyFloat x) = (\<bar>x\<bar> \<le> 10 ^ 300)"
| "moderate PyNone = False"
| "moderate (PyStr s) = False"
| "moderate (PyList xs) = False"

section \<open>Sample inputs\<close>

text \<open>A successful outcome with a given estimate, and metrics with a given price, for
  the examples of the recommendation.\<close>

definition sample_result :: "real \<Rightarrow> ValuationResult" where
  "sample_result v =
     \<lparr> method_tag = COMPARATIVE,
       estimated_value = v,
       confidence_interval = (v * 0.8, v * 1.2),
       assumptions = [],
       calculation_details = [] \<rparr>"

definition sample_metrics :: "real \<Rightarrow> FinancialMetrics" where
  "sample_metrics p =
     \<lparr> current_price = p,
       market_cap = 0,
       pe_ratio = None,
       peg_ratio = None,
       price_to_book = None,
       debt_to_equity = None,
       revenue_growth = None,
       earnings_growth = None,
       free_cash_flow = None \<rparr>"

text \<open>A snapshot with a P/E ratio, an earnings growth of 20% and a price of 100.\<close>

definition peg_snapshot :: "real \<Rightarrow> pydict" where
  "peg_snapshot pe =
     [''pe_ratio'' \<mapsto> PyFloat pe,
      ''earnings_growth'' \<mapsto> PyFloat 0.2,
      ''current_price'' \<mapsto> PyFloat 100]"

text \<open>A snapshot with free cash flow, P/E ratio and price, and no earnings growth.\<close>

definition snapshot_without_growth :: pydict where
  "snapshot_without_growth =
     [''free_cash_flow'' \<mapsto> PyFloat 1000,
      ''pe_ratio'' \<mapsto> PyFloat 20,
      ''current_price'' \<mapsto> PyFloat 50]"

section \<open>Helper lemmas\<close>

lemma as_number_error: "as_number v = Inl e \<Longrightarrow> e = TypeError"
  by (cases v) simp_all

lemma as_number_is_number: "is_number v \<Longrightarrow> as_number v = Inr (number_of v)"
  by (cases v) simp_all

lemma as_number_not_number: "\<not> is_number v \<Longrightarrow> as_number v = Inl TypeError"
  by (cases v) simp_all

lemma truthy_number: "is_number v \<Longrightarrow> truthy v = (number_of v \<noteq> 0)"
  by (cases v) simp_all

lemma moderate_is_number: "moderate v \<Longrightarrow> is_number v"
  by (cases v) simp_all

section \<open>Terminal value\<close>

text \<open>
  Claim C1, as amended. \<^verbatim>\<open>_calculate_terminal_value\<close> has no check of its rates. For
  every final-period flow and float rates it raises exactly when the discount rate equals
  the terminal growth rate, and the exception is the interpreter's
  \<^verbatim>\<open>ZeroDivisionError\<close>; for every other pair of rates, a discount rate below the
  terminal growth rate included, it returns
  \<^verbatim>\<open>final_fcf * (1 + terminal_growth) / (discount_rate - terminal_growth)\<close>.
\<close>

theorem terminal_value_raises_iff_rates_equal:
  "calculate_terminal_value final_fcf (PyFloat terminal_growth) (PyFloat discount_rate) =
     (if discount_rate = terminal_growth then Inl ZeroDivisionError
      else Inr (final_fcf * (1 + terminal_growth) / (discount_rate - terminal_growth)))"
  by (simp add: calculate_terminal_value_def bindE_def py_div_def)

text \<open>The two inputs of the specification's test: equal rates of 0.02 raise; a discount
  rate of 0.10 over a terminal growth of 0.02 gives 100 * 1.02 / 0.08 = 1275.\<close>

theorem terminal_value_raises_iff_rates_equal_witness:
  "calculate_terminal_value 100 (PyFloat 0.02) (PyFloat 0.02) = Inl ZeroDivisionError \<and>
   calculate_terminal_value 100 (PyFloat 0.02) (PyFloat 0.10) = Inr 1275"
  using terminal_value_raises_iff_rates_equal [of 100 "0.02" "0.02"]
        terminal_value_raises_iff_rates_equal [of 100 "0.02" "0.10"]
  by simp

text \<open>Claim C1 as stated fails: with a discount rate of 0.01 below a terminal growth of
  0.02 the computation returns 100 * 1.02 / (0.01 - 0.02) = -10200 and raises nothing.\<close>

theorem terminal_value_below_growth_returns:
  "calculate_terminal_value 100 (PyFloat 0.02) (PyFloat 0.01) = Inr (- 10200)"
  by (simp add: calculate_terminal_value_def bindE_def py_div_def)

section \<open>The DCF valuator\<close>

lemmas dcf_unfold =
  dcf_valuation_def outcome_def bindE_def dict_get_def assumption_get_def py_div_def
  py_pow_def project_cash_flows_def calculate_terminal_value_def discount_cash_flows_def
  last_item_def calculate_dcf_confidence_interval_def Let_def

text \<open>
  Claim C2, as amended. \<^verbatim>\<open>dcf_valuation\<close> reads the free cash flow with
  \<^verbatim>\<open>stock_data.get('free_cash_flow', 0)\<close>. For every snapshot in which the key is absent
  the valuator does not raise for that reason: it computes what it computes for the same
  snapshot with a free cash flow of 0. With the default assumptions and no debt, cash or
  share count in the snapshot, the result is an estimate of 0 with the interval (0, 0).
\<close>

theorem dcf_absent_cash_flow_is_zero:
  assumes "sd ''free_cash_flow'' = None"
  shows "dcf_valuation sd mc a = dcf_valuation (sd(''free_cash_flow'' \<mapsto> PyInt 0)) mc a \<and>
         (sd ''total_debt'' = None \<and> sd ''total_cash'' = None \<and>
          sd ''shares_outstanding'' = None \<longrightarrow>
            outcome (dcf_valuation sd mc None) = Inr (DCF, 0, (0, 0)))"
proof -
  have same: "dcf_valuation sd mc a = dcf_valuation (sd(''free_cash_flow'' \<mapsto> PyInt 0)) mc a"
    using assms by (simp add: dcf_valuation_def dict_get_def)
  have zero: "outcome (dcf_valuation sd mc None) = Inr (DCF, 0, (0, 0))"
    if "sd ''total_debt'' = None" "sd ''total_cash'' = None" "sd ''shares_outstanding'' = None"
    using assms that by (simp add: dcf_unfold upto.simps)
  show ?thesis using same zero by blast
qed

theorem dcf_absent_cash_flow_is_zero_witness:
  "dcf_valuation [''current_price'' \<mapsto> PyFloat 100] Map.empty None =
     dcf_valuation [''current_price'' \<mapsto> PyFloat 100, ''free_cash_flow'' \<mapsto> PyInt 0] Map.empty None \<and>
   outcome (dcf_valuation [''current_price'' \<mapsto> PyFloat 100] Map.empty None) = Inr (DCF, 0, (0, 0))"
proof -
  have absent: "[''current_price'' \<mapsto> PyFloat 100] ''free_cash_flow'' = None"
    by simp
  note fact =
    dcf_absent_cash_flow_is_zero [of "[''current_price'' \<mapsto> PyFloat 100]" Map.empty None, OF absent]
  have same: "dcf_valuation [''current_price'' \<mapsto> PyFloat 100] Map.empty None =
     dcf_valuation [''current_price'' \<mapsto> PyFloat 100, ''free_cash_flow'' \<mapsto> PyInt 0] Map.empty None"
    using fact by (rule conjunct1)
  have "outcome (dcf_valuation [''current_price'' \<mapsto> PyFloat 100] Map.empty None) = Inr (DCF, 0, (0, 0))"
    using conjunct2 [OF fact] by simp
  with same show ?thesis by (rule conjI)
qed

text \<open>Claim C2 as stated fails: a snapshot with a price of 100 and no free-cash-flow key,
  under the default assumptions, is valued at 0 with the interval (0, 0); nothing is
  raised.\<close>

theorem dcf_absent_cash_flow_computes_on_zero:
  "outcome (dcf_valuation [''current_price'' \<mapsto> PyFloat 100] Map.empty None) = Inr (DCF, 0, (0, 0))"
  by (simp add: dcf_unfold upto.simps)

text \<open>
  Claim C5 fails on the code. \<^verbatim>\<open>_calculate_dcf_confidence_interval\<close> returns
  \<^verbatim>\<open>(estimated_value * 0.8, estimated_value * 1.2)\<close> under the names
  \<^verbatim>\<open>lower_bound\<close> and \<^verbatim>\<open>upper_bound\<close>. For a snapshot with a price of 10 and a
  free cash flow of -100, under the default assumptions, the estimate is about -1446.21
  and the interval is about (-1156.97, -1735.45): the first component is above the second.
\<close>

theorem dcf_negative_estimate_interval_reversed:
  "outcome (dcf_valuation [''current_price'' \<mapsto> PyFloat 10, ''free_cash_flow'' \<mapsto> PyFloat (- 100)]
              Map.empty None) =
     Inr (DCF, - (677567625 / 468512), (- (135513525 / 117128), - (406540575 / 234256))) \<and>
   - (406540575 / 234256) < - (135513525 / 117128 :: real)"
  by (simp add: dcf_unfold upto.simps power_divide)

text \<open>
  Claim C8, as amended. \<^verbatim>\<open>dcf_valuation\<close> does not validate the assumption overrides.
  For every snapshot and every override dictionary whose \<^verbatim>\<open>projection_years\<close> is an
  int that is zero or negative, \<^verbatim>\<open>_project_cash_flows\<close> runs and returns the empty list,
  \<^verbatim>\<open>projected_cash_flows[-1]\<close> raises \<^verbatim>\<open>IndexError\<close>, and the loop of the router
  drops the method as it drops any other failing method.
\<close>

theorem dcf_nonpositive_years_index_error:
  assumes "a ''projection_years'' = Some (PyInt n)" and "n \<le> 0"
  shows "dcf_valuation sd mc (Some a) = Inl IndexError \<and>
         perform_valuations [DCF] sd mc (Some a) = []"
proof -
  have "dcf_valuation sd mc (Some a) = Inl IndexError"
    using assms by (simp add: dcf_unfold)
  then show ?thesis by (simp add: perform_valuations_def)
qed

theorem dcf_nonpositive_years_index_error_witness:
  "dcf_valuation [''free_cash_flow'' \<mapsto> PyFloat 100] Map.empty
     (Some [''projection_years'' \<mapsto> PyInt (- 1)]) = Inl IndexError \<and>
   perform_valuations [DCF] [''free_cash_flow'' \<mapsto> PyFloat 100] Map.empty
     (Some [''projection_years'' \<mapsto> PyInt (- 1)]) = []"
  using dcf_nonpositive_years_index_error
    [of "[''projection_years'' \<mapsto> PyInt (- 1)]" "- 1" "[''free_cash_flow'' \<mapsto> PyFloat 100]" Map.empty]
  by simp

text \<open>Claim C8 as stated fails: with \<^verbatim>\<open>projection_years = -1\<close> the exception is the
  \<^verbatim>\<open>IndexError\<close> of the list access, not a validation error; and with
  \<^verbatim>\<open>growth_rate = -2\<close> (a growth of -200%, flows of alternating sign) nothing is
  rejected: a free cash flow of 100 is valued at about -868.86.\<close>

theorem dcf_no_assumption_validation:
  "outcome (dcf_valuation [''free_cash_flow'' \<mapsto> PyFloat 100] Map.empty
              (Some [''projection_years'' \<mapsto> PyInt (- 1)])) = Inl IndexError \<and>
   outcome (dcf_valuation [''free_cash_flow'' \<mapsto> PyFloat 100] Map.empty
              (Some [''growth_rate'' \<mapsto> PyFloat (- 2)])) =
     Inr (DCF, - (12721000 / 14641), (- (10176800 / 14641), - (15265200 / 14641)))"
  by (simp add: dcf_unfold upto.simps power_divide)

section \<open>The loop over the requested methods\<close>

lemma valuation_loop_append:
  "valuation_loop ms sd mc a acc = acc @ valuation_loop ms sd mc a []"
proof (induction ms arbitrary: acc)
  case Nil
  then show ?case by simp
next
  case (Cons m ms)
  show ?case
  proof (cases "perform_single_valuation m sd mc a")
    case (Inl e)
    then show ?thesis using Cons.IH [of acc] by simp
  next
    case (Inr r)
    then show ?thesis using Cons.IH [of "acc @ [r]"] Cons.IH [of "[r]"] by simp
  qed
qed

lemma perform_valuations_Cons:
  "perform_valuations (m # ms) sd mc a =
     (case perform_single_valuation m sd mc a of
        Inl e \<Rightarrow> perform_valuations ms sd mc a
      | Inr r \<Rightarrow> r # perform_valuations ms sd mc a)"
proof (cases "perform_single_valuation m sd mc a")
  case (Inl e)
  then show ?thesis by (simp add: perform_valuations_def)
next
  case (Inr r)
  then show ?thesis
    using valuation_loop_append [of ms sd mc a "[r]"] by (simp add: perform_valuations_def)
qed

lemma dcf_tag: "dcf_valuation sd mc a = Inr r \<Longrightarrow> method_tag r = DCF"
  by (auto simp: dcf_valuation_def bindE_def Let_def split: sum.splits)

lemma peg_tag: "peg_valuation sd mc a = Inr r \<Longrightarrow> method_tag r = PEG"
  by (auto simp: peg_valuation_def bindE_def Let_def split: sum.splits if_splits)

lemma pe_tag: "pe_valuation sd mc a = Inr r \<Longrightarrow> method_tag r = PE"
  by (auto simp: pe_valuation_def bindE_def Let_def split: sum.splits if_splits)

lemma comparative_tag: "comparative_valuation sd mc a = Inr r \<Longrightarrow> method_tag r = COMPARATIVE"
  by (auto simp: comparative_valuation_def bindE_def Let_def split: sum.splits)

lemma single_valuation_tag: "perform_single_valuation m sd mc a = Inr r \<Longrightarrow> method_tag r = m"
  by (cases m) (simp_all add: dcf_tag peg_tag pe_tag comparative_tag)

text \<open>
  Claim C3. For every list of requested methods the loop returns, in the order of the
  request, the results of exactly those methods whose valuator did not raise: an exception
  of one valuator removes that method and nothing else, and the method tags of the results
  are the requested methods with the failing ones left out.
\<close>

theorem orchestrator_skips_failures_in_order:
  "perform_valuations ms sd mc a =
     map (\<lambda>m. projr (perform_single_valuation m sd mc a))
       (filter (\<lambda>m. \<not> isl (perform_single_valuation m sd mc a)) ms) \<and>
   map method_tag (perform_valuations ms sd mc a) =
     filter (\<lambda>m. \<not> isl (perform_single_valuation m sd mc a)) ms"
proof
  show "perform_valuations ms sd mc a =
     map (\<lambda>m. projr (perform_single_valuation m sd mc a))
       (filter (\<lambda>m. \<not> isl (perform_single_valuation m sd mc a)) ms)"
  proof (induction ms)
    case Nil
    then show ?case by (simp add: perform_valuations_def)
  next
    case (Cons m ms)
    then show ?case
      by (cases "perform_single_valuation m sd mc a") (simp_all add: perform_valuations_Cons)
  qed
  show "map method_tag (perform_valuations ms sd mc a) =
     filter (\<lambda>m. \<not> isl (perform_single_valuation m sd mc a)) ms"
  proof (induction ms)
    case Nil
    then show ?case by (simp add: perform_valuations_def)
  next
    case (Cons m ms)
    then show ?case
      by (cases "perform_single_valuation m sd mc a")
         (simp_all add: perform_valuations_Cons single_valuation_tag)
  qed
qed

text \<open>The example of the specification: the methods DCF, PEG, P/E on a snapshot without
  earnings growth. The PEG valuator raises \<^verbatim>\<open>ValueError\<close>; the outcomes are those of DCF
  and P/E, in that order.\<close>

theorem orchestrator_skips_failures_in_order_witness:
  "peg_valuation snapshot_without_growth Map.empty None = Inl ValueError \<and>
   map method_tag (perform_valuations [DCF, PEG, PE] snapshot_without_growth Map.empty None) =
     [DCF, PE]"
proof -
  have d: "\<not> isl (dcf_valuation snapshot_without_growth Map.empty None)"
    by (simp add: snapshot_without_growth_def dcf_unfold upto.simps)
  have p: "peg_valuation snapshot_without_growth Map.empty None = Inl ValueError"
    by (simp add: snapshot_without_growth_def peg_valuation_def dict_get_def)
  have e: "\<not> isl (pe_valuation snapshot_without_growth Map.empty None)"
    by (simp add: snapshot_without_growth_def pe_valuation_def dict_get_def bindE_def py_div_def
        calculate_pe_confidence_interval_def industry_pe_ratios_def Let_def)
  have "map method_tag (perform_valuations [DCF, PEG, PE] snapshot_without_growth Map.empty None) =
     [DCF, PE]"
    using conjunct2 [OF orchestrator_skips_failures_in_order
            [of "[DCF, PEG, PE]" snapshot_without_growth Map.empty None]] d p e
    by simp
  with p show ?thesis by (rule conjI)
qed

section \<open>Recommendation and risk factors\<close>

text \<open>Where the three fields read by \<^verbatim>\<open>identify_risk_factors\<close> are absent or numbers,
  the list holds one text for each rule that fires, in the order of the checks, and the
  single text of the sentinel when none fires.\<close>

lemma risk_factors_of_numbers:
  assumes "is_number (dict_get sd ''debt_to_equity'' (PyInt 0))"
    and "is_number (dict_get sd ''pe_ratio'' (PyInt 0))"
    and "is_number (dict_get mc ''market_volatility'' (PyInt 0))"
  shows "identify_risk_factors sd mc =
    Inr (let flags =
              (if number_of (dict_get sd ''debt_to_equity'' (PyInt 0)) > 1
               then [''High debt-to-equity ratio''] else []) @
              (if number_of (dict_get sd ''pe_ratio'' (PyInt 0)) > 30
               then [''High P/E ratio may indicate overvaluation''] else []) @
              (if number_of (dict_get mc ''market_volatility'' (PyInt 0)) > 0.3
               then [''High market volatility''] else [])
         in if flags = [] then [''No significant risk factors identified''] else flags)"
  using assms by (simp add: identify_risk_factors_def bindE_def as_number_is_number Let_def)

lemma risk_factors_sentinel_example:
  "identify_risk_factors [''debt_to_equity'' \<mapsto> PyFloat 0.5, ''pe_ratio'' \<mapsto> PyFloat 12]
     [''market_volatility'' \<mapsto> PyFloat 0.05] = Inr [''No significant risk factors identified'']"
  by (simp add: identify_risk_factors_def bindE_def dict_get_def)

text \<open>
  Claim C7 fails on the code. The data retriever stores \<^verbatim>\<open>None\<close> under
  \<^verbatim>\<open>debt_to_equity\<close> and \<^verbatim>\<open>pe_ratio\<close> when the source has no value, and
  \<^verbatim>\<open>stock_data.get('debt_to_equity', 0)\<close> then yields \<^verbatim>\<open>None\<close>, not the default. For
  a snapshot with \<^verbatim>\<open>debt_to_equity = None\<close>, a P/E of 12 and a volatility of 0.05 the
  comparison \<^verbatim>\<open>None > 1.0\<close> raises \<^verbatim>\<open>TypeError\<close>: no list is returned.
\<close>

theorem risk_factors_none_field_raises:
  "identify_risk_factors [''debt_to_equity'' \<mapsto> PyNone, ''pe_ratio'' \<mapsto> PyFloat 12]
     [''market_volatility'' \<mapsto> PyFloat 0.05] = Inl TypeError"
  by (simp add: identify_risk_factors_def bindE_def dict_get_def)

section \<open>The PEG and P/E valuators\<close>

text \<open>
  Claim C9, as amended. A P/E ratio or an earnings growth that is absent, \<^verbatim>\<open>None\<close> or
  zero makes the PEG valuator raise \<^verbatim>\<open>ValueError\<close>, and a P/E ratio that is absent,
  \<^verbatim>\<open>None\<close> or zero makes the P/E valuator raise \<^verbatim>\<open>ValueError\<close>, for every snapshot.
  An EPS of zero makes the P/E valuator raise \<^verbatim>\<open>ValueError\<close> where the price is absent
  or a number of moderate size and the P/E ratio is \<^verbatim>\<open>None\<close> or a number of moderate
  size: the default of the lookup, \<^verbatim>\<open>current_price / current_pe\<close>, is computed before the
  check, and it raises for a price that is not a number or an int too large for a float. The
  PEG valuator never raises \<^verbatim>\<open>ZeroDivisionError\<close>.
\<close>

theorem zero_required_field_raises_value_error:
  assumes "z = PyInt 0 \<or> z = PyFloat 0"
  shows "(sd ''pe_ratio'' = None \<or> sd ''pe_ratio'' = Some PyNone \<or> sd ''pe_ratio'' = Some z \<longrightarrow>
            peg_valuation sd mc a = Inl ValueError \<and> pe_valuation sd mc a = Inl ValueError) \<and>
         (sd ''earnings_growth'' = None \<or> sd ''earnings_growth'' = Some PyNone \<or>
          sd ''earnings_growth'' = Some z \<longrightarrow>
            peg_valuation sd mc a = Inl ValueError) \<and>
         (sd ''eps'' = Some z \<and>
          moderate (dict_get sd ''current_price'' (PyInt 0)) \<and>
          (dict_get sd ''pe_ratio'' PyNone = PyNone \<or> moderate (dict_get sd ''pe_ratio'' PyNone)) \<longrightarrow>
            pe_valuation sd mc a = Inl ValueError) \<and>
         peg_valuation sd mc a \<noteq> Inl ZeroDivisionError"
proof -
  have z: "\<not> truthy z" using assms by auto
  have peg_pe: "peg_valuation sd mc a = Inl ValueError"
    if "\<not> truthy (dict_get sd ''pe_ratio'' PyNone) \<or> \<not> truthy (dict_get sd ''earnings_growth'' PyNone)"
    using that by (auto simp: peg_valuation_def Let_def)
  have pe_pe: "pe_valuation sd mc a = Inl ValueError"
    if "\<not> truthy (dict_get sd ''pe_ratio'' PyNone)"
    using that by (auto simp: pe_valuation_def Let_def bindE_def)
  have pe_eps: "pe_valuation sd mc a = Inl ValueError"
    if "sd ''eps'' = Some z" "is_number (dict_get sd ''current_price'' (PyInt 0))"
       "missing_or_number (dict_get sd ''pe_ratio'' PyNone)"
    using that z
    by (auto simp: pe_valuation_def Let_def bindE_def py_div_def as_number_is_number
        truthy_number dict_get_def missing_or_number_def)
  have nozde: "peg_valuation sd mc a \<noteq> Inl ZeroDivisionError"
  proof (cases "truthy (dict_get sd ''pe_ratio'' PyNone) \<and>
                truthy (dict_get sd ''earnings_growth'' PyNone)")
    case False
    then show ?thesis using peg_pe by auto
  next
    case True
    show ?thesis
    proof (cases "is_number (dict_get sd ''pe_ratio'' PyNone) \<and>
                  is_number (dict_get sd ''earnings_growth'' PyNone)")
      case False
      then show ?thesis using True
        by (auto simp: peg_valuation_def Let_def bindE_def as_number_not_number as_number_is_number
            split: sum.splits dest: as_number_error)
    next
      case n: True
      then show ?thesis using True
        by (auto simp: peg_valuation_def Let_def bindE_def py_div_def as_number_is_number
            truthy_number split: sum.splits dest: as_number_error)
    qed
  qed
  have c1: "sd ''pe_ratio'' = None \<or> sd ''pe_ratio'' = Some PyNone \<or> sd ''pe_ratio'' = Some z \<longrightarrow>
            peg_valuation sd mc a = Inl ValueError \<and> pe_valuation sd mc a = Inl ValueError"
    using peg_pe pe_pe z by (auto simp: dict_get_def)
  have c2: "sd ''earnings_growth'' = None \<or> sd ''earnings_growth'' = Some PyNone \<or>
          sd ''earnings_growth'' = Some z \<longrightarrow> peg_valuation sd mc a = Inl ValueError"
    using peg_pe z by (auto simp: dict_get_def)
  have c3: "sd ''eps'' = Some z \<and>
          moderate (dict_get sd ''current_price'' (PyInt 0)) \<and>
          (dict_get sd ''pe_ratio'' PyNone = PyNone \<or> moderate (dict_get sd ''pe_ratio'' PyNone)) \<longrightarrow>
            pe_valuation sd mc a = Inl ValueError"
    using pe_eps moderate_is_number by (auto simp: missing_or_number_def)
  show ?thesis using c1 c2 c3 nozde by blast
qed

theorem zero_required_field_raises_value_error_witness:
  "peg_valuation [''pe_ratio'' \<mapsto> PyFloat 0, ''earnings_growth'' \<mapsto> PyFloat 0.2,
                  ''current_price'' \<mapsto> PyFloat 100] Map.empty None = Inl ValueError \<and>
   pe_valuation [''pe_ratio'' \<mapsto> PyFloat 0, ''earnings_growth'' \<mapsto> PyFloat 0.2,
                 ''current_price'' \<mapsto> PyFloat 100] Map.empty None = Inl ValueError \<and>
   peg_valuation [''pe_ratio'' \<mapsto> PyFloat 20, ''earnings_growth'' \<mapsto> PyFloat 0,
                  ''current_price'' \<mapsto> PyFloat 100] Map.empty None = Inl ValueError \<and>
   pe_valuation [''pe_ratio'' \<mapsto> PyFloat 20, ''eps'' \<mapsto> PyFloat 0,
                 ''current_price'' \<mapsto> PyFloat 100] Map.empty None = Inl ValueError"
  using zero_required_field_raises_value_error
          [of "PyFloat 0"
              "[''pe_ratio'' \<mapsto> PyFloat 0, ''earnings_growth'' \<mapsto> PyFloat 0.2,
                ''current_price'' \<mapsto> PyFloat 100]" Map.empty None]
        zero_required_field_raises_value_error
          [of "PyFloat 0"
              "[''pe_ratio'' \<mapsto> PyFloat 20, ''earnings_growth'' \<mapsto> PyFloat 0,
                ''current_price'' \<mapsto> PyFloat 100]" Map.empty None]
        zero_required_field_raises_value_error
          [of "PyFloat 0"
              "[''pe_ratio'' \<mapsto> PyFloat 20, ''eps'' \<mapsto> PyFloat 0,
                ''current_price'' \<mapsto> PyFloat 100]" Map.empty None]
  by (simp add: dict_get_def)

text \<open>Claim C9 as stated fails: with a P/E of 20, an EPS of 0 and a price that is present
  with the value \<^verbatim>\<open>None\<close>, the P/E valuator raises \<^verbatim>\<open>TypeError\<close> at
  \<^verbatim>\<open>current_price / current_pe\<close>, before the check that raises \<^verbatim>\<open>ValueError\<close>.\<close>

theorem pe_zero_eps_none_price_type_error:
  "pe_valuation [''pe_ratio'' \<mapsto> PyFloat 20, ''eps'' \<mapsto> PyInt 0, ''current_price'' \<mapsto> PyNone]
     Map.empty None = Inl TypeError"
  by (simp add: pe_valuation_def Let_def bindE_def dict_get_def)

section \<open>The comparative valuator\<close>

text \<open>
  Claim C10, as amended. For every snapshot whose price is absent or a number of moderate
  size the comparative valuator succeeds: an absent price counts as 0 and gives an estimate
  of 0 with the interval (0, 0); a price p gives the estimate p * 1.1 with the interval
  (p * 1.1 * 0.8, p * 1.1 * 1.2). The valuator is not total: a price that is not a number
  raises \<^verbatim>\<open>TypeError\<close>, and an int too large for a float raises
  \<^verbatim>\<open>OverflowError\<close>.
\<close>

theorem comparative_succeeds_on_numeric_price:
  "(sd ''current_price'' = None \<longrightarrow>
      outcome (comparative_valuation sd mc a) = Inr (COMPARATIVE, 0, (0, 0))) \<and>
   (sd ''current_price'' = Some v \<and> moderate v \<longrightarrow>
      outcome (comparative_valuation sd mc a) =
        Inr (COMPARATIVE, number_of v * 1.1,
             (number_of v * 1.1 * 0.8, number_of v * 1.1 * 1.2)))"
  by (simp add: comparative_valuation_def outcome_def bindE_def dict_get_def
      as_number_is_number moderate_is_number Let_def)

theorem comparative_succeeds_on_numeric_price_witness:
  "outcome (comparative_valuation [''pe_ratio'' \<mapsto> PyFloat 20] Map.empty None) =
     Inr (COMPARATIVE, 0, (0, 0)) \<and>
   outcome (comparative_valuation [''current_price'' \<mapsto> PyFloat 100] Map.empty None) =
     Inr (COMPARATIVE, 110, (88, 132))"
  using comparative_succeeds_on_numeric_price
          [where sd = "[''pe_ratio'' \<mapsto> PyFloat 20]" and mc = Map.empty and a = None
             and v = "PyFloat 0"]
        comparative_succeeds_on_numeric_price
          [where sd = "[''current_price'' \<mapsto> PyFloat 100]" and mc = Map.empty and a = None
             and v = "PyFloat 100"]
  by simp

text \<open>Claim C10 as stated fails: for a snapshot whose price is present with the value
  \<^verbatim>\<open>None\<close> the lookup yields \<^verbatim>\<open>None\<close>, not the default, and \<^verbatim>\<open>None * 1.1\<close> raises
  \<^verbatim>\<open>TypeError\<close>.\<close>

theorem comparative_none_price_type_error:
  "comparative_valuation [''current_price'' \<mapsto> PyNone] Map.empty None = Inl TypeError"
  by (simp add: comparative_valuation_def bindE_def dict_get_def)

end
